theory Spec2Isabelle
  imports Complex_Main
begin

section \<open>JavaScript values\<close>

text \<open>
  The service handles parsed JSON throughout: the webhook body, the token, the file
  list, the recognizer and the sentiment responses. A JavaScript value is therefore a
  JSON value or \<open>undefined\<close>. A number is a double: a finite value (kept as the rational
  it denotes; \<open>-0\<close> and \<open>0\<close> are not told apart, nothing in the source does), an
  infinity or NaN. A string is a list of code units below 256, so that \<open>length\<close> is the
  JavaScript \<open>.length\<close>. An object is its list of own properties; the first entry for a
  key is the property.
\<close>

datatype number = Finite rat | PlusInfinity | MinusInfinity | NaN

datatype json =
    JUndefined
  | JNull
  | JBool bool
  | JNum number
  | JStr string
  | JArr "json list"
  | JObj "(string \<times> json) list"

text \<open>
  The errors the source can meet: \<open>new Error(msg)\<close>, the \<open>TypeError\<close> of reading a
  property of \<open>null\<close> or \<open>undefined\<close> (tagged with the property name) and of
  converting a value that has no string (tagged \<open>toString\<close>; the engine's message text
  is not modelled), a rejected \<open>fetch\<close> or an unparsable response body, and the error
  event of a storage write stream.
\<close>

datatype error =
    Error string
  | TypeError string
  | FetchError string
  | StreamError string

text \<open>
  Built-ins and npm modules that the source calls and that are no part of the
  repository are parameters of the model: \<open>Number.prototype.toString\<close>, the
  conversion of a string to a number, \<open>JSON.stringify\<close>, the \<open>btoa\<close> module and
  \<open>Buffer.from(value, 'base64')\<close> (which throws on some values).
\<close>

record runtime =
  number_toString :: "number \<Rightarrow> string"
  string_toNumber :: "string \<Rightarrow> number"
  JSON_stringify :: "json \<Rightarrow> string"
  btoa :: "string \<Rightarrow> string"
  Buffer_from :: "json \<Rightarrow> error + string"

text \<open>Truthiness, as \<open>if (v)\<close> and \<open>v && w\<close> test it.\<close>

fun truthy :: "json \<Rightarrow> bool" where
  "truthy JUndefined = False"
| "truthy JNull = False"
| "truthy (JBool b) = b"
| "truthy (JNum n) = (n \<noteq> Finite 0 \<and> n \<noteq> NaN)"
| "truthy (JStr s) = (s \<noteq> [])"
| "truthy (JArr xs) = True"
| "truthy (JObj fs) = True"

text \<open>Decimal digits of a natural number: how an array index or an HTTP status prints.\<close>

fun show_nat :: "nat \<Rightarrow> string" where
  "show_nat n =
     (if n < 10 then [''0123456789'' ! n]
      else show_nat (n div 10) @ [''0123456789'' ! (n mod 10)])"

declare show_nat.simps [simp del]

definition array_index :: "string \<Rightarrow> nat \<Rightarrow> nat option" where
  "array_index k n = find (\<lambda>i. show_nat i = k) [0..<n]"

text \<open>
  Property access \<open>v.k\<close> and \<open>v[0]\<close> (the key \<open>''0''\<close>), for the property names the
  source reads: reading a property of \<open>undefined\<close> or \<open>null\<close> throws; an array and a
  string have \<open>length\<close> and their indices; a number and a boolean have none of these
  properties.
\<close>

fun js_get :: "json \<Rightarrow> string \<Rightarrow> error + json" where
  "js_get JUndefined k = Inl (TypeError k)"
| "js_get JNull k = Inl (TypeError k)"
| "js_get (JObj fs) k = (case map_of fs k of Some v \<Rightarrow> Inr v | None \<Rightarrow> Inr JUndefined)"
| "js_get (JArr xs) k =
     (if k = ''length'' then Inr (JNum (Finite (of_nat (length xs))))
      else case array_index k (length xs) of
             Some i \<Rightarrow> Inr (xs ! i)
           | None \<Rightarrow> Inr JUndefined)"
| "js_get (JStr s) k =
     (if k = ''length'' then Inr (JNum (Finite (of_nat (length s))))
      else case array_index k (length s) of
             Some i \<Rightarrow> Inr (JStr [s ! i])
           | None \<Rightarrow> Inr JUndefined)"
| "js_get (JBool b) k = Inr JUndefined"
| "js_get (JNum n) k = Inr JUndefined"

text \<open>A chain of accesses \<open>v.a.b.c\<close>, left to right, stopping at the first throw.\<close>

fun js_path :: "json \<Rightarrow> string list \<Rightarrow> error + json" where
  "js_path v [] = Inr v"
| "js_path v (k # ks) = (case js_get v k of Inl e \<Rightarrow> Inl e | Inr w \<Rightarrow> js_path w ks)"

text \<open>\<open>a && b\<close>: the left operand when it is falsy, the right operand otherwise.\<close>

definition js_and :: "error + json \<Rightarrow> error + json \<Rightarrow> error + json" where
  "js_and a b = (case a of Inl e \<Rightarrow> Inl e | Inr v \<Rightarrow> if truthy v then b else Inr v)"

text \<open>
  The conversion of a value to a string, as string concatenation, template literals
  and comparison with a number apply it. It throws for an object that has an own
  property \<open>toString\<close>: in parsed JSON that property is data, never a function, and
  the inherited \<open>valueOf\<close> returns the object itself, so the value has no primitive.
  An array is converted element by element, so it throws when an element does.
  \<open>printable\<close> says that the conversion does not throw, \<open>to_string\<close> is the string
  of a printable value (an array prints its elements joined by commas, \<open>null\<close> and
  \<open>undefined\<close> elements as the empty string), and \<open>js_string\<close> is the conversion.
\<close>

fun printable :: "json \<Rightarrow> bool" where
  "printable (JObj fs) = (map_of fs ''toString'' = None)"
| "printable (JArr xs) = list_all printable xs"
| "printable JUndefined = True"
| "printable JNull = True"
| "printable (JBool b) = True"
| "printable (JNum n) = True"
| "printable (JStr s) = True"

fun js_join :: "string list \<Rightarrow> string" where
  "js_join [] = []"
| "js_join [s] = s"
| "js_join (s # r # rest) = s @ '','' @ js_join (r # rest)"

fun to_string :: "runtime \<Rightarrow> json \<Rightarrow> string" where
  "to_string L JUndefined = ''undefined''"
| "to_string L JNull = ''null''"
| "to_string L (JBool b) = (if b then ''true'' else ''false'')"
| "to_string L (JNum n) = number_toString L n"
| "to_string L (JStr s) = s"
| "to_string L (JArr xs) =
     js_join (map (\<lambda>x. if x = JNull \<or> x = JUndefined then [] else to_string L x) xs)"
| "to_string L (JObj fs) = ''[object Object]''"

definition js_string :: "runtime \<Rightarrow> json \<Rightarrow> error + string" where
  "js_string L v = (if printable v then Inr (to_string L v) else Inl (TypeError ''toString''))"

text \<open>
  The number of a printable value, as the comparison \<open>v > 0\<close> takes it: an array or
  object goes through its string.
\<close>

fun to_number :: "runtime \<Rightarrow> json \<Rightarrow> number" where
  "to_number L JUndefined = NaN"
| "to_number L JNull = Finite 0"
| "to_number L (JBool b) = (if b then Finite 1 else Finite 0)"
| "to_number L (JNum n) = n"
| "to_number L (JStr s) = string_toNumber L s"
| "to_number L (JArr xs) = string_toNumber L (to_string L (JArr xs))"
| "to_number L (JObj fs) = string_toNumber L (to_string L (JObj fs))"

fun positive :: "number \<Rightarrow> bool" where
  "positive (Finite r) = (0 < r)"
| "positive PlusInfinity = True"
| "positive MinusInfinity = False"
| "positive NaN = False"

text \<open>
  \<open>e > 0\<close> for an expression \<open>e\<close> that may throw; the conversion of its value to a
  number throws where the conversion to a string does.
\<close>

definition js_gt0 :: "runtime \<Rightarrow> error + json \<Rightarrow> error + json" where
  "js_gt0 L a =
     (case a of
        Inl e \<Rightarrow> Inl e
      | Inr v \<Rightarrow>
          if printable v then Inr (JBool (positive (to_number L v)))
          else Inl (TypeError ''toString''))"

text \<open>
  \<open>encodeURIComponent\<close> of a printable value: the unreserved characters stay, every other code unit is
  written as the percent-escaped bytes of its UTF-8 encoding (one byte below 128, two
  bytes from 128 to 255).
\<close>

definition uri_unreserved :: "char \<Rightarrow> bool" where
  "uri_unreserved c =
     (c \<in> set (''ABCDEFGHIJKLMNOPQRSTUVWXYZabcdefghijklmnopqrstuvwxyz0123456789-_.!~*()''
               @ [CHR 0x27]))"

definition percent :: "nat \<Rightarrow> string" where
  "percent n = [CHR ''%'', ''0123456789ABCDEF'' ! (n div 16), ''0123456789ABCDEF'' ! (n mod 16)]"

definition encode_unit :: "char \<Rightarrow> string" where
  "encode_unit c =
     (if uri_unreserved c then [c]
      else if (of_char c :: nat) < 128 then percent (of_char c)
      else percent (192 + of_char c div 64) @ percent (128 + of_char c mod 64))"

definition encodeURIComponent :: "runtime \<Rightarrow> json \<Rightarrow> string" where
  "encodeURIComponent L v = concat (map encode_unit (to_string L v))"


section \<open>Configuration (properties.js)\<close>

definition incontactVersion :: string where "incontactVersion = ''v11.0''"
definition incontactName :: string where "incontactName = ''yourName''"
definition incontactVendor :: string where "incontactVendor = ''yourName''"
definition incontactKey :: string where "incontactKey = ''yourKey''"
definition incontactTokenUrl :: string where
  "incontactTokenUrl = ''https://api.incontact.com/InContactAuthorizationServer/Token''"
definition incontactUser :: string where "incontactUser = ''yourUser''"
definition incontactPwd :: string where "incontactPwd = ''yourPwd''"
definition gcpKey :: string where "gcpKey = ''yourKey''"
definition gcpSttUrl :: string where
  "gcpSttUrl = ''https://speech.googleapis.com/v1/speech:recognize?key='' @ gcpKey"
definition gcpSntUrl :: string where
  "gcpSntUrl = ''https://language.googleapis.com/v1/documents:analyzeSentiment?key='' @ gcpKey"

section \<open>The outside world, events and promises\<close>

text \<open>
  An outbound request as \<open>fetch(url, options)\<close> receives it, and the response as the
  source reads it: \<open>response.ok\<close> is node-fetch's \<open>200 <= status < 300\<close>, and
  \<open>response.json()\<close> rejects when the body is no JSON (\<open>json_body = None\<close>).
\<close>

record request =
  url :: string
  verb :: string
  headers :: "(string \<times> string) list"
  payload :: "string option"
  cache :: string
  mode :: string

record response =
  status :: nat
  statusText :: string
  json_body :: "json option"

definition ok :: "response \<Rightarrow> bool" where
  "ok r = (200 \<le> status r \<and> status r < 300)"

datatype fetch_result = Response response | Failed error

datatype stream_result = Finish | Broken error

text \<open>What is written to a blob: the bytes of a Buffer, or a JavaScript value.\<close>

datatype content = Bytes string | Value json

text \<open>
  Time is a count of ticks. The world answers a request issued at a given time after a
  delay, or never: no remote call has a timeout. The same request may be answered
  differently at different times.
\<close>

type_synonym time = nat

datatype 'a arrival = Never | After nat 'a

record world =
  net :: "time \<Rightarrow> request \<Rightarrow> fetch_result arrival"
  gcs :: "time \<Rightarrow> string \<Rightarrow> content \<Rightarrow> stream_result arrival"

text \<open>
  What an observer of the service sees, each with its time: the HTTP status sent back to
  the webhook caller, a log line, an outbound request, the start of a blob write. A log
  line \<open>contactId:${contactId} fn - rest\<close> is kept as its level, the interpolated
  contactId, the tag \<open>fn\<close> and the rest: a fixed message, a label with an interpolated
  value, or an interpolated error.
\<close>

datatype level = Info | Err

datatype detail = Msg string | Val string json | Thrown error

datatype event =
    Respond nat
  | Log level json string detail
  | Fetch request
  | Save string content

text \<open>
  A promise is the events its computation causes (in the order the code issues them) and
  how it settles: never, or at a time, rejected (\<open>Inl\<close>) or fulfilled (\<open>Inr\<close>). A
  callback runs at the time its promise settles; what it returns is again a promise, so
  a returned plain value is \<open>resolve\<close> and a \<open>throw\<close> is \<open>reject\<close>.
\<close>

datatype 'a settle = Pending | Settled time "error + 'a"

type_synonym 'a promise = "(time \<times> event) list \<times> 'a settle"

definition resolve :: "time \<Rightarrow> 'a \<Rightarrow> 'a promise" where
  "resolve t v = ([], Settled t (Inr v))"

definition reject :: "time \<Rightarrow> error \<Rightarrow> 'a promise" where
  "reject t e = ([], Settled t (Inl e))"

definition logged :: "time \<Rightarrow> event \<Rightarrow> 'a promise \<Rightarrow> 'a promise" where
  "logged t ev p = ((t, ev) # fst p, snd p)"

definition p_then :: "'a promise \<Rightarrow> (time \<Rightarrow> 'a \<Rightarrow> 'b promise) \<Rightarrow> 'b promise" where
  "p_then p f =
     (case snd p of
        Pending \<Rightarrow> (fst p, Pending)
      | Settled t (Inl e) \<Rightarrow> (fst p, Settled t (Inl e))
      | Settled t (Inr v) \<Rightarrow> (fst p @ fst (f t v), snd (f t v)))"

definition p_catch :: "'a promise \<Rightarrow> (time \<Rightarrow> error \<Rightarrow> 'a promise) \<Rightarrow> 'a promise" where
  "p_catch p h =
     (case snd p of
        Pending \<Rightarrow> (fst p, Pending)
      | Settled t (Inl e) \<Rightarrow> (fst p @ fst (h t e), snd (h t e))
      | Settled t (Inr v) \<Rightarrow> (fst p, Settled t (Inr v)))"

text \<open>
  A callback that starts a promise and does not return it: the promise's events still
  happen, the callback returns \<open>undefined\<close> at once and nobody sees how the promise
  settles.
\<close>

definition forget :: "time \<Rightarrow> 'a promise \<Rightarrow> json promise" where
  "forget t p = (fst p, Settled t (Inr JUndefined))"

text \<open>\<open>fetch\<close> and \<open>response.json()\<close>.\<close>

definition fetch :: "world \<Rightarrow> time \<Rightarrow> request \<Rightarrow> response promise" where
  "fetch W t req =
     ([(t, Fetch req)],
      case net W t req of
        Never \<Rightarrow> Pending
      | After d (Response r) \<Rightarrow> Settled (t + d) (Inr r)
      | After d (Failed e) \<Rightarrow> Settled (t + d) (Inl e))"

definition response_json :: "time \<Rightarrow> response \<Rightarrow> json promise" where
  "response_json t r =
     (case json_body r of
        Some j \<Rightarrow> resolve t j
      | None \<Rightarrow> reject t (FetchError ''invalid-json''))"

text \<open>
  The first callback of every REST wrapper:
  \<open>response => { if (response.ok) return response.json();
                  else throw new Error('Response status: ' + response.status) }\<close>.
\<close>

definition json_if_ok :: "time \<Rightarrow> response \<Rightarrow> json promise" where
  "json_if_ok t r =
     (if ok r then response_json t r
      else reject t (Error (''Response status: '' @ show_nat (status r))))"


text \<open>\<open>return e\<close> for an expression \<open>e\<close> that may throw.\<close>

definition returning :: "time \<Rightarrow> error + 'a \<Rightarrow> 'a promise" where
  "returning t a = (case a of Inl e \<Rightarrow> reject t e | Inr v \<Rightarrow> resolve t v)"

section \<open>Admin (admin.js)\<close>

record Admin =
  key :: string

definition Admin_new :: "runtime \<Rightarrow> Admin" where
  "Admin_new L =
     \<lparr>key = btoa L (incontactName @ ''@'' @ incontactVendor @ '':'' @ incontactKey)\<rparr>"

text \<open>
  The arguments of the three \<open>fetch\<close> calls of the class. The file requests are built
  from values that \<open>_getFile\<close> and \<open>_removeFile\<close> have converted to strings first.
\<close>

definition getToken_request :: "runtime \<Rightarrow> Admin \<Rightarrow> string \<Rightarrow> request" where
  "getToken_request L this url' =
     \<lparr>url = url',
      verb = ''POST'',
      headers = [(''Content-Type'', ''application/json''),
                 (''Authorization'', ''basic '' @ Admin.key this)],
      payload = Some (JSON_stringify L
        (JObj [(''grant_type'', JStr ''password''),
               (''username'', JStr incontactUser),
               (''password'', JStr incontactPwd)])),
      cache = ''no-store'',
      mode = ''cors''\<rparr>"

definition files_url :: "runtime \<Rightarrow> json \<Rightarrow> json \<Rightarrow> string" where
  "files_url L uri fileName =
     to_string L uri @ ''services/'' @ incontactVersion @ ''/files?fileName=''
       @ encodeURIComponent L fileName"

definition getFile_request :: "runtime \<Rightarrow> json \<Rightarrow> json \<Rightarrow> json \<Rightarrow> request" where
  "getFile_request L token uri fileName =
     \<lparr>url = files_url L uri fileName,
      verb = ''GET'',
      headers = [(''Authorization'', ''bearer '' @ to_string L token)],
      payload = None,
      cache = ''no-store'',
      mode = ''cors''\<rparr>"

definition removeFile_request :: "runtime \<Rightarrow> json \<Rightarrow> json \<Rightarrow> json \<Rightarrow> request" where
  "removeFile_request L token uri fileName =
     \<lparr>url = files_url L uri fileName,
      verb = ''DELETE'',
      headers = [(''Authorization'', ''bearer '' @ to_string L token)],
      payload = None,
      cache = ''no-store'',
      mode = ''cors''\<rparr>"

text \<open>\<open>_getToken(contactId, key, url)\<close>. The parameter \<open>key\<close> is not read.\<close>

definition Admin_getToken ::
  "runtime \<Rightarrow> world \<Rightarrow> Admin \<Rightarrow> json \<Rightarrow> json \<Rightarrow> string \<Rightarrow> time \<Rightarrow> json promise" where
  "Admin_getToken L W this contactId key' url' t =
     p_catch
       (p_then
          (p_then (fetch W t (getToken_request L this url')) json_if_ok)
          (\<lambda>t json.
             case js_and (js_and (Inr json) (js_get json ''access_token''))
                         (js_get json ''resource_server_base_uri'') of
               Inl e \<Rightarrow> reject t e
             | Inr c \<Rightarrow>
                 if truthy c then
                   logged t (Log Info contactId ''_getToken'' (Msg ''token received''))
                     (resolve t json)
                 else reject t (Error ''Missing token and/or uri'')))
       (\<lambda>t err. logged t (Log Err contactId ''_getToken'' (Thrown err)) (reject t err))"

text \<open>
  \<open>_getFile(contactId, token, uri, fileName)\<close>. The URL and the Authorization header
  are built before \<open>fetch\<close> is called, converting \<open>uri\<close>, \<open>fileName\<close> and
  \<open>token\<close> in this order; a throw there leaves the function before any promise
  exists, which for the caller's callback is a rejection without events. The log line
  of the success branch reads \<open>json.files.file.length\<close> and converts it before
  \<open>json.files\<close> is returned.
\<close>

definition Admin_getFile ::
  "runtime \<Rightarrow> world \<Rightarrow> json \<Rightarrow> json \<Rightarrow> json \<Rightarrow> json \<Rightarrow> time \<Rightarrow> json promise" where
  "Admin_getFile L W contactId token uri fileName t =
     (case js_string L uri of Inl e \<Rightarrow> reject t e | Inr u \<Rightarrow>
     (case js_string L fileName of Inl e \<Rightarrow> reject t e | Inr f \<Rightarrow>
     (case js_string L token of Inl e \<Rightarrow> reject t e | Inr k \<Rightarrow>
     p_catch
       (p_then
          (p_then (fetch W t (getFile_request L token uri fileName)) json_if_ok)
          (\<lambda>t json.
             case js_and (Inr json) (js_get json ''files'') of
               Inl e \<Rightarrow> reject t e
             | Inr c \<Rightarrow>
                 if truthy c then
                   (case js_path json [''files'', ''file'', ''length''] of
                      Inl e \<Rightarrow> reject t e
                    | Inr n \<Rightarrow>
                        (case js_string L n of
                           Inl e \<Rightarrow> reject t e
                         | Inr m \<Rightarrow>
                             logged t (Log Info contactId ''_getFile'' (Val ''length:'' n))
                               (returning t (js_get json ''files''))))
                 else reject t (Error ''Missing files object'')))
       (\<lambda>t err. logged t (Log Err contactId ''_getFile'' (Thrown err)) (reject t err)))))"

text \<open>
  \<open>_removeFile(contactId, token, uri, fileName)\<close>, with the same conversions before
  \<open>fetch\<close>.
\<close>

definition Admin_removeFile ::
  "runtime \<Rightarrow> world \<Rightarrow> json \<Rightarrow> json \<Rightarrow> json \<Rightarrow> json \<Rightarrow> time \<Rightarrow> json promise" where
  "Admin_removeFile L W contactId token uri fileName t =
     (case js_string L uri of Inl e \<Rightarrow> reject t e | Inr u \<Rightarrow>
     (case js_string L fileName of Inl e \<Rightarrow> reject t e | Inr f \<Rightarrow>
     (case js_string L token of Inl e \<Rightarrow> reject t e | Inr k \<Rightarrow>
     p_catch
       (p_then (fetch W t (removeFile_request L token uri fileName))
          (\<lambda>t response.
             if ok response then
               logged t (Log Info contactId ''_removeFile'' (Msg ''file deleted''))
                 (resolve t (JObj [(''text'', JStr (statusText response))]))
             else reject t (Error (statusText response))))
       (\<lambda>t err. logged t (Log Err contactId ''_removeFile'' (Thrown err)) (reject t err)))))"

text \<open>\<open>get(contactId, fileName)\<close> and \<open>remove(contactId, fileName)\<close>.\<close>

definition Admin_get ::
  "runtime \<Rightarrow> world \<Rightarrow> Admin \<Rightarrow> json \<Rightarrow> json \<Rightarrow> time \<Rightarrow> json promise" where
  "Admin_get L W this contactId fileName t =
     p_catch
       (p_then (Admin_getToken L W this contactId (JStr (Admin.key this)) incontactTokenUrl t)
          (\<lambda>t data.
             case js_get data ''access_token'' of
               Inl e \<Rightarrow> reject t e
             | Inr token \<Rightarrow>
                 (case js_get data ''resource_server_base_uri'' of
                    Inl e \<Rightarrow> reject t e
                  | Inr uri \<Rightarrow> Admin_getFile L W contactId token uri fileName t)))
       (\<lambda>t err. logged t (Log Err contactId ''get'' (Thrown err)) (reject t err))"

definition Admin_remove ::
  "runtime \<Rightarrow> world \<Rightarrow> Admin \<Rightarrow> json \<Rightarrow> json \<Rightarrow> time \<Rightarrow> json promise" where
  "Admin_remove L W this contactId fileName t =
     p_catch
       (p_then (Admin_getToken L W this contactId (JStr (Admin.key this)) incontactTokenUrl t)
          (\<lambda>t data.
             case js_get data ''access_token'' of
               Inl e \<Rightarrow> reject t e
             | Inr token \<Rightarrow>
                 (case js_get data ''resource_server_base_uri'' of
                    Inl e \<Rightarrow> reject t e
                  | Inr uri \<Rightarrow> Admin_removeFile L W contactId token uri fileName t)))
       (\<lambda>t err. logged t (Log Err contactId ''remove'' (Thrown err)) (reject t err))"


section \<open>Sentiment (sentiment.js)\<close>

definition stt_request :: "runtime \<Rightarrow> json \<Rightarrow> request" where
  "stt_request L msg =
     \<lparr>url = gcpSttUrl,
      verb = ''POST'',
      headers = [(''Content-Type'', ''application/json; charset=utf-8'')],
      payload = Some (JSON_stringify L
        (JObj [(''audio'', JObj [(''content'', msg)]),
               (''config'', JObj [(''languageCode'', JStr ''en-US'')])])),
      cache = ''no-store'',
      mode = ''cors''\<rparr>"

definition analyze_request :: "runtime \<Rightarrow> json \<Rightarrow> request" where
  "analyze_request L txt =
     \<lparr>url = gcpSntUrl,
      verb = ''POST'',
      headers = [(''Content-Type'', ''application/json; charset=utf-8'')],
      payload = Some (JSON_stringify L
        (JObj [(''document'', JObj [(''type'', JStr ''PLAIN_TEXT''),
                                    (''language'', JStr ''en''),
                                    (''content'', txt)]),
               (''encodingType'', JStr ''UTF8'')])),
      cache = ''no-store'',
      mode = ''cors''\<rparr>"

text \<open>
  \<open>_stt(contactId, msg)\<close>. The log line of the success branch converts
  \<open>transcript.length\<close>.
\<close>

definition Sentiment_stt ::
  "runtime \<Rightarrow> world \<Rightarrow> json \<Rightarrow> json \<Rightarrow> time \<Rightarrow> json promise" where
  "Sentiment_stt L W contactId msg t =
     p_catch
       (p_then
          (p_then (fetch W t (stt_request L msg)) json_if_ok)
          (\<lambda>t json.
             case js_and
                    (js_and
                       (js_and
                          (js_and (js_get json ''results'')
                                  (js_gt0 L (js_path json [''results'', ''length''])))
                          (js_path json [''results'', ''0'', ''alternatives'']))
                       (js_gt0 L (js_path json [''results'', ''0'', ''alternatives'', ''length''])))
                    (js_path json [''results'', ''0'', ''alternatives'', ''0'', ''transcript'']) of
               Inl e \<Rightarrow> reject t e
             | Inr c \<Rightarrow>
                 if truthy c then
                   (case js_path json [''results'', ''0'', ''alternatives'', ''0'', ''transcript''] of
                      Inl e \<Rightarrow> reject t e
                    | Inr transcript \<Rightarrow>
                        (case js_get transcript ''length'' of
                           Inl e \<Rightarrow> reject t e
                         | Inr n \<Rightarrow>
                             (case js_string L n of
                                Inl e \<Rightarrow> reject t e
                              | Inr m \<Rightarrow>
                                  logged t
                                    (Log Info contactId ''_stt'' (Val ''transcript length:'' n))
                                    (resolve t transcript))))
                 else reject t (Error ''Invalid/missing result value'')))
       (\<lambda>t err. logged t (Log Err contactId ''_stt'' (Thrown err)) (reject t err))"

text \<open>
  \<open>_analyze(contactId, text)\<close>. The result object pairs the parameter \<open>text\<close> with
  the response's \<open>documentSentiment\<close>.
\<close>

definition Sentiment_analyze ::
  "runtime \<Rightarrow> world \<Rightarrow> json \<Rightarrow> json \<Rightarrow> time \<Rightarrow> json promise" where
  "Sentiment_analyze L W contactId txt t =
     p_catch
       (p_then
          (p_then (fetch W t (analyze_request L txt)) json_if_ok)
          (\<lambda>t json.
             case js_get json ''documentSentiment'' of
               Inl e \<Rightarrow> reject t e
             | Inr c \<Rightarrow>
                 if truthy c then
                   logged t (Log Info contactId ''_analyze'' (Msg ''sentiment analysis complete''))
                     (resolve t (JObj [(''transcript'', txt), (''sentiment'', c)]))
                 else reject t (Error ''Invalid/missing result value'')))
       (\<lambda>t err. logged t (Log Err contactId ''_analyze'' (Thrown err)) (reject t err))"

text \<open>\<open>process(contactId, audio)\<close>.\<close>

definition Sentiment_process ::
  "runtime \<Rightarrow> world \<Rightarrow> json \<Rightarrow> json \<Rightarrow> time \<Rightarrow> json promise" where
  "Sentiment_process L W contactId audio t =
     p_catch
       (p_then (Sentiment_stt L W contactId audio t)
          (\<lambda>t txt. Sentiment_analyze L W contactId txt t))
       (\<lambda>t err. logged t (Log Err contactId ''process'' (Thrown err)) (reject t err))"

section \<open>GCStorage (gcstorage.js)\<close>

text \<open>
  \<open>_save(contactId, name, file, content)\<close>: the write starts when the promise is
  created; the stream's \<open>finish\<close> or \<open>error\<close> event logs and settles the promise. The
  File object is determined by \<open>name\<close>.
\<close>

definition GCStorage_save :: "world \<Rightarrow> json \<Rightarrow> string \<Rightarrow> content \<Rightarrow> time \<Rightarrow> json promise" where
  "GCStorage_save W contactId name c t =
     (case gcs W t name c of
        Never \<Rightarrow> ([(t, Save name c)], Pending)
      | After d (Broken err) \<Rightarrow>
          ([(t, Save name c), (t + d, Log Err contactId ''_save'' (Thrown err))],
           Settled (t + d) (Inl err))
      | After d Finish \<Rightarrow>
          ([(t, Save name c), (t + d, Log Info contactId ''_save'' (Msg (name @ '' uploaded'')))],
           Settled (t + d) (Inr JUndefined)))"

text \<open>
  \<open>upload(contactId, audio, transcript, sentiment)\<close>. The first \<open>_save\<close> heads the
  chain; the second and the third are started inside callbacks that do not return
  them. The names are concatenations with the contactId, printed as \<open>to_string\<close>
  prints it.
\<close>

definition audioName :: "runtime \<Rightarrow> json \<Rightarrow> string" where
  "audioName L contactId = (to_string L contactId @ ''/'') @ to_string L contactId @ ''.wav''"

definition transName :: "runtime \<Rightarrow> json \<Rightarrow> string" where
  "transName L contactId = (to_string L contactId @ ''/'') @ to_string L contactId @ ''.txt''"

definition sntName :: "runtime \<Rightarrow> json \<Rightarrow> string" where
  "sntName L contactId = (to_string L contactId @ ''/'') @ to_string L contactId @ ''.json''"

definition GCStorage_upload ::
  "runtime \<Rightarrow> world \<Rightarrow> json \<Rightarrow> string \<Rightarrow> json \<Rightarrow> string \<Rightarrow> time \<Rightarrow> json promise" where
  "GCStorage_upload L W contactId audio transcript sentiment t =
     p_catch
       (p_then
          (p_then (GCStorage_save W contactId (audioName L contactId) (Bytes audio) t)
             (\<lambda>t u. forget t
                (GCStorage_save W contactId (transName L contactId) (Value transcript) t)))
          (\<lambda>t u. forget t
             (GCStorage_save W contactId (sntName L contactId) (Value (JStr sentiment)) t)))
       (\<lambda>t err. logged t (Log Err contactId ''_upload'' (Thrown err)) (reject t err))"

section \<open>The webhook handler (the app server)\<close>

text \<open>
  The handler of \<open>app.post\<close>, run at time \<open>t\<close> on the parsed body: its result is
  everything that happens for the job. The first log line converts \<open>contactId\<close> and
  then \<open>fileName\<close> to strings: a throw there ends the handler, after the response and
  before \<open>admin.get\<close> is called. Every later log line and concatenation of the job
  converts these same two values again, which then cannot throw; the stages above are
  written for such a contactId. The variable \<open>audio\<close>, assigned in the first
  callback and read in the second, is passed by nesting the second callback in the
  first (\<open>p_then\<close> is associative, lemma \<open>p_then_assoc\<close>). The last callback calls
  \<open>admin.remove\<close> without returning its promise, and the final \<open>catch\<close> only logs.
\<close>

definition post_handler :: "runtime \<Rightarrow> world \<Rightarrow> json \<Rightarrow> time \<Rightarrow> (time \<times> event) list" where
  "post_handler L W body t =
     (t, Respond 200) #
     (case js_get body ''contactId'' of
        Inl e \<Rightarrow> []
      | Inr contactId \<Rightarrow>
     (case js_get body ''fileName'' of
        Inl e \<Rightarrow> []
      | Inr fileName \<Rightarrow>
     (case js_string L contactId of
        Inl e \<Rightarrow> []
      | Inr c \<Rightarrow>
     (case js_string L fileName of
        Inl e \<Rightarrow> []
      | Inr f \<Rightarrow>
          (t, Log Info contactId ''webserver'' (Val ''fileName:'' fileName)) #
          fst (p_catch
            (p_then
               (p_then (Admin_get L W (Admin_new L) contactId fileName t)
                  (\<lambda>t json.
                     case js_get json ''file'' of
                       Inl e \<Rightarrow> reject t e
                     | Inr audio \<Rightarrow>
                         p_then (Sentiment_process L W contactId audio t)
                           (\<lambda>t json.
                              case Buffer_from L audio of
                                Inl e \<Rightarrow> reject t e
                              | Inr buffer \<Rightarrow>
                              (case js_get json ''transcript'' of
                                 Inl e \<Rightarrow> reject t e
                               | Inr transcript \<Rightarrow>
                              (case js_get json ''sentiment'' of
                                 Inl e \<Rightarrow> reject t e
                               | Inr sentiment \<Rightarrow>
                                   GCStorage_upload L W contactId buffer transcript
                                     (JSON_stringify L sentiment) t)))))
               (\<lambda>t u. forget t (Admin_remove L W (Admin_new L) contactId fileName t)))
            (\<lambda>t err. logged t (Log Err contactId ''webserver'' (Thrown err))
                        (resolve t JUndefined)))))))"


section \<open>Observations and response shapes\<close>

text \<open>The outbound requests and the blob writes of a trace, each with its time.\<close>

definition requests :: "(time \<times> event) list \<Rightarrow> (time \<times> request) list" where
  "requests tr = concat (map (\<lambda>(t, e). case e of Fetch r \<Rightarrow> [(t, r)] | _ \<Rightarrow> []) tr)"

definition saves :: "(time \<times> event) list \<Rightarrow> (time \<times> string \<times> content) list" where
  "saves tr = concat (map (\<lambda>(t, e). case e of Save n c \<Rightarrow> [(t, n, c)] | _ \<Rightarrow> []) tr)"

text \<open>
  Shapes of response bodies, used to state what a response is like: \<open>field k v\<close> is the
  member \<open>k\<close> of the JSON object \<open>v\<close>, if \<open>v\<close> is an object and has one. A body
  \<^emph>\<open>contains\<close> a field when the member is there with a truthy value: truthiness is what
  the source tests, and its own error messages call a falsy member missing.
\<close>

definition field :: "string \<Rightarrow> json \<Rightarrow> json option" where
  "field k v = (case v of JObj fs \<Rightarrow> map_of fs k | _ \<Rightarrow> None)"

definition supplied :: "string \<Rightarrow> json \<Rightarrow> bool" where
  "supplied k v = (case field k v of Some w \<Rightarrow> truthy w | None \<Rightarrow> False)"

text \<open>
  The recognizer's response schema is a chain: result list, first result, alternative
  list, first alternative, transcript text. \<open>transcript_at\<close> walks the chain;
  \<open>broken_chain\<close> says that a link is broken: the result list or the first result's
  alternative list is missing, null or empty, or the first alternative's transcript is
  missing, null or the empty string.
\<close>

definition no_list :: "json option \<Rightarrow> bool" where
  "no_list m = (m = None \<or> m = Some JUndefined \<or> m = Some JNull \<or> m = Some (JArr []))"

definition no_text :: "json option \<Rightarrow> bool" where
  "no_text m = (m = None \<or> m = Some JUndefined \<or> m = Some JNull \<or> m = Some (JStr []))"

definition transcript_at :: "json \<Rightarrow> json option" where
  "transcript_at j =
     (case field ''results'' j of
        Some (JArr (r0 # rs)) \<Rightarrow>
          (case field ''alternatives'' r0 of
             Some (JArr (a0 # as)) \<Rightarrow> field ''transcript'' a0
           | _ \<Rightarrow> None)
      | _ \<Rightarrow> None)"

definition broken_chain :: "json \<Rightarrow> bool" where
  "broken_chain j =
     (no_list (field ''results'' j) \<or>
      (case field ''results'' j of
         Some (JArr (r0 # rs)) \<Rightarrow>
           no_list (field ''alternatives'' r0) \<or>
           (case field ''alternatives'' r0 of
              Some (JArr (a0 # as)) \<Rightarrow> no_text (field ''transcript'' a0)
            | _ \<Rightarrow> False)
       | _ \<Rightarrow> False))"

text \<open>The condition of the \<open>if\<close> in \<open>_stt\<close>, as a function of the response body.\<close>

definition stt_check :: "runtime \<Rightarrow> json \<Rightarrow> error + json" where
  "stt_check L json =
     js_and
       (js_and
          (js_and
             (js_and (js_get json ''results'')
                     (js_gt0 L (js_path json [''results'', ''length''])))
             (js_path json [''results'', ''0'', ''alternatives'']))
          (js_gt0 L (js_path json [''results'', ''0'', ''alternatives'', ''length''])))
       (js_path json [''results'', ''0'', ''alternatives'', ''0'', ''transcript''])"

text \<open>
  The promise chain of the handler, callback by callback: \<open>on_file\<close> is the first
  \<open>then\<close> callback (it keeps \<open>json.file\<close> as \<open>audio\<close> and calls \<open>process\<close>),
  \<open>on_sentiment\<close> the second (it calls \<open>upload\<close>), and \<open>pipeline\<close> the whole chain
  with the \<open>remove\<close> callback and the final \<open>catch\<close>. Lemma \<open>post_handler_pipeline\<close>
  shows that this is the handler's chain.
\<close>

definition on_sentiment ::
  "runtime \<Rightarrow> world \<Rightarrow> json \<Rightarrow> json \<Rightarrow> time \<Rightarrow> json \<Rightarrow> json promise" where
  "on_sentiment L W contactId audio t json =
     (case Buffer_from L audio of
        Inl e \<Rightarrow> reject t e
      | Inr buffer \<Rightarrow>
     (case js_get json ''transcript'' of
        Inl e \<Rightarrow> reject t e
      | Inr transcript \<Rightarrow>
     (case js_get json ''sentiment'' of
        Inl e \<Rightarrow> reject t e
      | Inr sentiment \<Rightarrow>
          GCStorage_upload L W contactId buffer transcript (JSON_stringify L sentiment) t)))"

definition on_file :: "runtime \<Rightarrow> world \<Rightarrow> json \<Rightarrow> time \<Rightarrow> json \<Rightarrow> json promise" where
  "on_file L W contactId t json =
     (case js_get json ''file'' of
        Inl e \<Rightarrow> reject t e
      | Inr audio \<Rightarrow>
          p_then (Sentiment_process L W contactId audio t) (on_sentiment L W contactId audio))"

definition pipeline :: "runtime \<Rightarrow> world \<Rightarrow> json \<Rightarrow> json \<Rightarrow> time \<Rightarrow> json promise" where
  "pipeline L W contactId fileName t =
     p_catch
       (p_then
          (p_then (Admin_get L W (Admin_new L) contactId fileName t) (on_file L W contactId))
          (\<lambda>t u. forget t (Admin_remove L W (Admin_new L) contactId fileName t)))
       (\<lambda>t err. logged t (Log Err contactId ''webserver'' (Thrown err)) (resolve t JUndefined))"







section \<open>Concrete runtimes, worlds and jobs\<close>

text \<open>
  A runtime whose library functions are simple stand-ins, worlds that answer every
  request in one tick, and the job of the specification's scenarios.
\<close>

definition demo_runtime :: runtime where
  "demo_runtime =
     \<lparr>number_toString = (\<lambda>n. ''0''),
      string_toNumber = (\<lambda>s. NaN),
      JSON_stringify = (\<lambda>v. ''{}''),
      btoa = (\<lambda>s. s),
      Buffer_from = (\<lambda>v. case v of JStr s \<Rightarrow> Inr s | _ \<Rightarrow> Inl (TypeError ''Buffer.from''))\<rparr>"

definition reply200 :: "json \<Rightarrow> fetch_result" where
  "reply200 j = Response \<lparr>status = 200, statusText = ''OK'', json_body = Some j\<rparr>"

definition const_world :: "fetch_result \<Rightarrow> world" where
  "const_world res = \<lparr>net = (\<lambda>t req. After 1 res), gcs = (\<lambda>t n c. After 1 Finish)\<rparr>"

definition token_body :: json where
  "token_body =
     JObj [(''access_token'', JStr ''tok''), (''resource_server_base_uri'', JStr ''https://api/'')]"

definition files_body :: json where
  "files_body = JObj [(''files'', JObj [(''file'', JStr ''UklGRg=='')])]"

definition transcript_body :: json where
  "transcript_body =
     JObj [(''results'',
       JArr [JObj [(''alternatives'', JArr [JObj [(''transcript'', JStr ''hello'')]])]])]"

definition sentiment_body :: json where
  "sentiment_body =
     JObj [(''documentSentiment'',
       JObj [(''magnitude'', JNum (Finite (4 / 5))), (''score'', JNum (Finite (- 3 / 10)))])]"

text \<open>
  The services of the specification's end-to-end scenario, each answering a well-formed
  success body after one tick, and an object store that acknowledges the audio blob
  after one tick, breaks the transcript blob's stream after fifty and never
  acknowledges the sentiment blob.
\<close>

definition scenario_net ::
  "fetch_result \<Rightarrow> fetch_result \<Rightarrow> fetch_result \<Rightarrow> fetch_result \<Rightarrow> fetch_result \<Rightarrow>
   time \<Rightarrow> request \<Rightarrow> fetch_result arrival" where
  "scenario_net token files recognized scored deleted t req =
     (if url req = incontactTokenUrl then After 1 token
      else if url req = gcpSttUrl then After 1 recognized
      else if url req = gcpSntUrl then After 1 scored
      else if verb req = ''GET'' then After 1 files
      else After 1 deleted)"

definition happy_net :: "time \<Rightarrow> request \<Rightarrow> fetch_result arrival" where
  "happy_net =
     scenario_net (reply200 token_body) (reply200 files_body) (reply200 transcript_body)
       (reply200 sentiment_body) (reply200 JNull)"

definition lossy_store :: "time \<Rightarrow> string \<Rightarrow> content \<Rightarrow> stream_result arrival" where
  "lossy_store t name c =
     (if name = ''abc123/abc123.wav'' then After 1 Finish
      else if name = ''abc123/abc123.txt'' then After 50 (Broken (StreamError ''reset''))
      else Never)"

definition lossy_world :: world where
  "lossy_world = \<lparr>net = happy_net, gcs = lossy_store\<rparr>"

definition happy_world :: world where
  "happy_world = \<lparr>net = happy_net, gcs = (\<lambda>t n c. After 1 Finish)\<rparr>"

text \<open>
  Worlds in which one stage fails: the token endpoint answers 401, the recognizer finds
  nothing, or every blob write breaks.
\<close>

definition unauthorized_world :: world where
  "unauthorized_world =
     const_world (Response \<lparr>status = 401, statusText = ''Unauthorized'', json_body = None\<rparr>)"

definition silent_world :: world where
  "silent_world =
     \<lparr>net = scenario_net (reply200 token_body) (reply200 files_body)
              (reply200 (JObj [(''results'', JArr [])])) (reply200 sentiment_body) (reply200 JNull),
      gcs = (\<lambda>t n c. After 1 Finish)\<rparr>"

definition broken_store_world :: world where
  "broken_store_world =
     \<lparr>net = happy_net, gcs = (\<lambda>t n c. After 1 (Broken (StreamError ''reset'')))\<rparr>"


definition job :: json where
  "job = JObj [(''contactId'', JStr ''abc123''), (''fileName'', JStr ''/rec/abc123.wav'')]"

section \<open>Basic facts\<close>


lemma p_then_assoc: "p_then (p_then p f) g = p_then p (\<lambda>t v. p_then (f t v) g)"
  by (auto simp: p_then_def split: settle.splits sum.splits)

lemma p_then_simps:
  "p_then (evs, Pending) f = (evs, Pending)"
  "p_then (evs, Settled t (Inl e)) f = (evs, Settled t (Inl e))"
  "p_then (evs, Settled t (Inr v)) f = (evs @ fst (f t v), snd (f t v))"
  by (simp_all add: p_then_def)

lemma p_catch_simps:
  "p_catch (evs, Pending) h = (evs, Pending)"
  "p_catch (evs, Settled t (Inl e)) h = (evs @ fst (h t e), snd (h t e))"
  "p_catch (evs, Settled t (Inr v)) h = (evs, Settled t (Inr v))"
  by (simp_all add: p_catch_def)

lemmas promise_simps =
  p_then_simps p_catch_simps logged_def resolve_def reject_def forget_def returning_def
  js_string_def

lemma requests_simps:
  "requests [] = []"
  "requests ((t, Fetch r) # tr) = (t, r) # requests tr"
  "requests ((t, Log l c g m) # tr) = requests tr"
  "requests ((t, Save n b) # tr) = requests tr"
  "requests ((t, Respond k) # tr) = requests tr"
  "requests (tr @ tr') = requests tr @ requests tr'"
  by (simp_all add: requests_def)

lemma saves_simps:
  "saves [] = []"
  "saves ((t, Fetch r) # tr) = saves tr"
  "saves ((t, Log l c g m) # tr) = saves tr"
  "saves ((t, Save n b) # tr) = (t, n, b) # saves tr"
  "saves ((t, Respond k) # tr) = saves tr"
  "saves (tr @ tr') = saves tr @ saves tr'"
  by (simp_all add: saves_def)

subsection \<open>Indices and property names\<close>

lemma show_nat_digits: "set (show_nat n) \<subseteq> set ''0123456789''"
proof (induction n rule: show_nat.induct)
  case (1 n)
  have d: "\<And>m. m < 10 \<Longrightarrow> ''0123456789'' ! m \<in> set ''0123456789''"
    by (rule nth_mem) simp
  show ?case
  proof (cases "n < 10")
    case True
    then show ?thesis using d[of n] by (subst show_nat.simps) simp
  next
    case False
    have "n mod 10 < 10" by simp
    with False 1 d[of "n mod 10"] show ?thesis
      by (subst show_nat.simps) simp
  qed
qed

lemma array_index_None:
  assumes "k \<noteq> []" "hd k \<notin> set ''0123456789''"
  shows "array_index k n = None"
proof -
  have "show_nat i \<noteq> k" for i
  proof
    assume e: "show_nat i = k"
    with assms(1) have "hd k \<in> set (show_nat i)" by simp
    with show_nat_digits[of i] assms(2) show False by blast
  qed
  then show ?thesis
    by (simp add: array_index_def find_None_iff)
qed

lemma array_index_first [simp]: "array_index ''0'' (Suc n) = Some 0"
  by (simp add: array_index_def upt_conv_Cons show_nat.simps del: upt_Suc)

lemma array_index_zero [simp]: "array_index k 0 = None"
  by (simp add: array_index_def)

lemma no_index [simp]:
  "array_index ''access_token'' n = None"
  "array_index ''resource_server_base_uri'' n = None"
  "array_index ''files'' n = None"
  "array_index ''file'' n = None"
  "array_index ''results'' n = None"
  "array_index ''alternatives'' n = None"
  "array_index ''transcript'' n = None"
  "array_index ''documentSentiment'' n = None"
  "array_index ''sentiment'' n = None"
  "array_index ''contactId'' n = None"
  "array_index ''fileName'' n = None"
  by (rule array_index_None; simp)+

lemma js_get_supplied:
  "supplied k j \<Longrightarrow> \<exists>v. field k j = Some v \<and> js_get j k = Inr v \<and> truthy v"
  by (cases j) (auto simp: supplied_def field_def split: option.splits)

lemma js_get_field:
  "field k j = Some v \<Longrightarrow> js_get j k = Inr v"
  by (cases j) (auto simp: field_def)

lemma js_get_no_field:
  "field k j = None \<Longrightarrow> k \<in> {''results'', ''alternatives'', ''transcript''} \<Longrightarrow>
   js_get j k = Inr JUndefined \<or> js_get j k = Inl (TypeError k)"
  by (cases j) (auto simp: field_def)

lemma js_get_truthy: "truthy v \<Longrightarrow> \<exists>w. js_get v k = Inr w"
  by (cases v) (auto split: option.splits)

lemma js_get_not_supplied:
  "\<not> supplied k j \<Longrightarrow> j \<noteq> JNull \<Longrightarrow> j \<noteq> JUndefined \<Longrightarrow>
   k \<in> {''access_token'', ''resource_server_base_uri'', ''files'', ''documentSentiment'',
         ''results''} \<Longrightarrow>
   \<exists>v. js_get j k = Inr v \<and> \<not> truthy v"
  by (cases j) (auto simp: supplied_def field_def split: option.splits)

subsection \<open>The common head of the REST wrappers\<close>

lemma fetch_json_if_ok:
  "p_then (fetch W t req) json_if_ok =
     ([(t, Fetch req)],
      case net W t req of
        Never \<Rightarrow> Pending
      | After d res \<Rightarrow>
          Settled (t + d)
            (case res of
               Failed e \<Rightarrow> Inl e
             | Response r \<Rightarrow>
                 if ok r then
                   (case json_body r of
                      None \<Rightarrow> Inl (FetchError ''invalid-json'')
                    | Some j \<Rightarrow> Inr j)
                 else Inl (Error (''Response status: '' @ show_nat (status r)))))"
  by (auto simp: p_then_def fetch_def json_if_ok_def response_json_def resolve_def reject_def
      split: arrival.splits fetch_result.splits option.splits)

lemma fetch_json_Never:
  "net W t req = Never \<Longrightarrow> p_then (fetch W t req) json_if_ok = ([(t, Fetch req)], Pending)"
  by (simp add: fetch_json_if_ok)

lemma fetch_json_Failed:
  "net W t req = After d (Failed e) \<Longrightarrow>
   p_then (fetch W t req) json_if_ok = ([(t, Fetch req)], Settled (t + d) (Inl e))"
  by (simp add: fetch_json_if_ok)

lemma fetch_json_status:
  "net W t req = After d (Response r) \<Longrightarrow> \<not> ok r \<Longrightarrow>
   p_then (fetch W t req) json_if_ok =
     ([(t, Fetch req)],
      Settled (t + d) (Inl (Error (''Response status: '' @ show_nat (status r)))))"
  by (simp add: fetch_json_if_ok)

lemma fetch_json_invalid:
  "net W t req = After d (Response r) \<Longrightarrow> ok r \<Longrightarrow> json_body r = None \<Longrightarrow>
   p_then (fetch W t req) json_if_ok =
     ([(t, Fetch req)], Settled (t + d) (Inl (FetchError ''invalid-json'')))"
  by (simp add: fetch_json_if_ok)

lemma fetch_json_body:
  "net W t req = After d (Response r) \<Longrightarrow> ok r \<Longrightarrow> json_body r = Some j \<Longrightarrow>
   p_then (fetch W t req) json_if_ok = ([(t, Fetch req)], Settled (t + d) (Inr j))"
  by (simp add: fetch_json_if_ok)

lemma fetch_json_shape:
  "\<exists>s. p_then (fetch W t req) json_if_ok = ([(t, Fetch req)], s)"
  by (simp add: fetch_json_if_ok)

section \<open>The token request (Admin._getToken)\<close>

lemma token_check_supplied:
  assumes "supplied ''access_token'' j" "supplied ''resource_server_base_uri'' j"
  shows "\<exists>v. js_and (js_and (Inr j) (js_get j ''access_token''))
                 (js_get j ''resource_server_base_uri'') = Inr v \<and> truthy v"
  using js_get_supplied[OF assms(1)] js_get_supplied[OF assms(2)]
  by (cases j) (auto simp: js_and_def field_def)

lemma token_check_missing:
  assumes "\<not> (supplied ''access_token'' j \<and> supplied ''resource_server_base_uri'' j)"
  shows "\<exists>v. js_and (js_and (Inr j) (js_get j ''access_token''))
                 (js_get j ''resource_server_base_uri'') = Inr v \<and> \<not> truthy v"
proof (cases "j = JNull \<or> j = JUndefined")
  case True
  then show ?thesis by (auto simp: js_and_def)
next
  case False
  show ?thesis
  proof (cases "supplied ''access_token'' j")
    case True
    with assms have "\<not> supplied ''resource_server_base_uri'' j" by simp
    with False js_get_not_supplied[of "''resource_server_base_uri''" j]
    obtain v where "js_get j ''resource_server_base_uri'' = Inr v" "\<not> truthy v" by auto
    with js_get_supplied[OF True] show ?thesis by (auto simp: js_and_def)
  next
    case F: False
    with False js_get_not_supplied[of "''access_token''" j]
    obtain v where "js_get j ''access_token'' = Inr v" "\<not> truthy v" by auto
    then show ?thesis by (auto simp: js_and_def)
  qed
qed

lemma getToken_shape:
  "\<exists>logs s. Admin_getToken L W this contactId k u t =
       ((t, Fetch (getToken_request L this u)) # logs, s)
     \<and> requests logs = [] \<and> saves logs = []"
proof -
  obtain s where h: "p_then (fetch W t (getToken_request L this u)) json_if_ok =
      ([(t, Fetch (getToken_request L this u))], s)"
    using fetch_json_shape by blast
  show ?thesis
  proof (cases s)
    case Pending
    with h show ?thesis
      by (simp add: Admin_getToken_def promise_simps requests_simps saves_simps)
  next
    case (Settled t' r)
    with h show ?thesis
      by (cases r)
        (auto simp: Admin_getToken_def promise_simps requests_simps saves_simps
          split: sum.splits)
  qed
qed

text \<open>
  C10. Whatever is passed as \<open>key\<close>, \<open>_getToken\<close> behaves the same: the promise and
  all its events are equal for any two keys. It issues exactly one request, which is
  built from the URL and the object's own \<open>this.key\<close> only, and for the object made by
  the constructor the Authorization header is \<open>basic\<close> followed by the \<open>btoa\<close> of the
  three static configuration values.
\<close>

theorem getToken_ignores_key:
  "Admin_getToken L W this contactId k1 u t = Admin_getToken L W this contactId k2 u t
   \<and> requests (fst (Admin_getToken L W this contactId k1 u t)) =
       [(t, getToken_request L this u)]
   \<and> map_of (headers (getToken_request L (Admin_new L) u)) ''Authorization'' =
       Some (''basic '' @ btoa L ''yourName@yourName:yourKey'')"
proof (intro conjI)
  show "Admin_getToken L W this contactId k1 u t = Admin_getToken L W this contactId k2 u t"
    by (simp add: Admin_getToken_def)
  show "requests (fst (Admin_getToken L W this contactId k1 u t)) =
          [(t, getToken_request L this u)]"
    using getToken_shape[of L W this contactId k1 u t] by (auto simp: requests_simps)
  show "map_of (headers (getToken_request L (Admin_new L) u)) ''Authorization'' =
       Some (''basic '' @ btoa L ''yourName@yourName:yourKey'')"
    by (simp add: getToken_request_def Admin_new_def incontactName_def incontactVendor_def
        incontactKey_def)
qed

theorem getToken_ignores_key_witness:
  "Admin_getToken demo_runtime (const_world (reply200 token_body)) (Admin_new demo_runtime)
      (JStr ''abc123'') (JStr ''some other key'') incontactTokenUrl 0 =
   Admin_getToken demo_runtime (const_world (reply200 token_body)) (Admin_new demo_runtime)
      (JStr ''abc123'') JUndefined incontactTokenUrl 0
   \<and> map_of (headers (getToken_request demo_runtime (Admin_new demo_runtime) incontactTokenUrl))
        ''Authorization'' = Some ''basic yourName@yourName:yourKey''"
  using getToken_ignores_key[of demo_runtime "const_world (reply200 token_body)"
      "Admin_new demo_runtime" "JStr ''abc123''" "JStr ''some other key''" incontactTokenUrl 0
      JUndefined]
  by (simp add: demo_runtime_def)

text \<open>
  C4. Let the token endpoint answer the request of \<open>_getToken\<close> after \<open>d\<close> ticks with
  the response \<open>r\<close>. If \<open>r\<close> has a success status and its body \<open>j\<close> contains
  \<open>access_token\<close> (value \<open>a\<close>) and \<open>resource_server_base_uri\<close> (value \<open>b\<close>), the
  promise is fulfilled with \<open>j\<close> itself, from which the caller reads exactly \<open>a\<close> and
  \<open>b\<close>. If the status is a success and either field is missing, the promise is rejected
  with \<open>Error('Missing token and/or uri')\<close>; if the status is no success, it is
  rejected with \<open>Error('Response status: ' + status)\<close>. In both failures the error is
  logged under the tag \<open>_getToken\<close> with the contactId: this rejection is what the
  specification calls an AuthError (the source has no error classes).
\<close>

theorem getToken_contract:
  assumes "net W t (getToken_request L this u) = After d (Response r)"
  shows "(ok r \<and> json_body r = Some j
            \<and> field ''access_token'' j = Some a \<and> truthy a
            \<and> field ''resource_server_base_uri'' j = Some b \<and> truthy b \<longrightarrow>
          Admin_getToken L W this contactId k u t =
            ([(t, Fetch (getToken_request L this u)),
              (t + d, Log Info contactId ''_getToken'' (Msg ''token received''))],
             Settled (t + d) (Inr j))
          \<and> js_get j ''access_token'' = Inr a
          \<and> js_get j ''resource_server_base_uri'' = Inr b)
       \<and> (ok r \<and> json_body r = Some j
            \<and> \<not> (supplied ''access_token'' j \<and> supplied ''resource_server_base_uri'' j) \<longrightarrow>
          Admin_getToken L W this contactId k u t =
            ([(t, Fetch (getToken_request L this u)),
              (t + d, Log Err contactId ''_getToken''
                 (Thrown (Error ''Missing token and/or uri'')))],
             Settled (t + d) (Inl (Error ''Missing token and/or uri''))))
       \<and> (\<not> ok r \<longrightarrow>
          Admin_getToken L W this contactId k u t =
            ([(t, Fetch (getToken_request L this u)),
              (t + d, Log Err contactId ''_getToken''
                 (Thrown (Error (''Response status: '' @ show_nat (status r)))))],
             Settled (t + d) (Inl (Error (''Response status: '' @ show_nat (status r))))))"
proof (intro conjI impI)
  assume a: "ok r \<and> json_body r = Some j
            \<and> field ''access_token'' j = Some a \<and> truthy a
            \<and> field ''resource_server_base_uri'' j = Some b \<and> truthy b"
  then have s: "supplied ''access_token'' j" "supplied ''resource_server_base_uri'' j"
    by (simp_all add: supplied_def)
  then obtain v where "js_and (js_and (Inr j) (js_get j ''access_token''))
                 (js_get j ''resource_server_base_uri'') = Inr v" "truthy v"
    using token_check_supplied by blast
  with a assms show "Admin_getToken L W this contactId k u t =
            ([(t, Fetch (getToken_request L this u)),
              (t + d, Log Info contactId ''_getToken'' (Msg ''token received''))],
             Settled (t + d) (Inr j))"
    by (simp add: Admin_getToken_def fetch_json_body promise_simps)
  from a js_get_supplied[OF s(1)]
  show "js_get j ''access_token'' = Inr a" by auto
  from a js_get_supplied[OF s(2)]
  show "js_get j ''resource_server_base_uri'' = Inr b" by auto
next
  assume a: "ok r \<and> json_body r = Some j
            \<and> \<not> (supplied ''access_token'' j \<and> supplied ''resource_server_base_uri'' j)"
  then obtain v where "js_and (js_and (Inr j) (js_get j ''access_token''))
                 (js_get j ''resource_server_base_uri'') = Inr v" "\<not> truthy v"
    using token_check_missing by blast
  with a assms show "Admin_getToken L W this contactId k u t =
            ([(t, Fetch (getToken_request L this u)),
              (t + d, Log Err contactId ''_getToken''
                 (Thrown (Error ''Missing token and/or uri'')))],
             Settled (t + d) (Inl (Error ''Missing token and/or uri'')))"
    by (simp add: Admin_getToken_def fetch_json_body promise_simps)
next
  assume "\<not> ok r"
  with assms show "Admin_getToken L W this contactId k u t =
            ([(t, Fetch (getToken_request L this u)),
              (t + d, Log Err contactId ''_getToken''
                 (Thrown (Error (''Response status: '' @ show_nat (status r)))))],
             Settled (t + d) (Inl (Error (''Response status: '' @ show_nat (status r)))))"
    by (simp add: Admin_getToken_def fetch_json_status promise_simps)
qed

theorem getToken_contract_witness:
  "Admin_getToken demo_runtime (const_world (reply200 token_body)) (Admin_new demo_runtime)
      (JStr ''abc123'') JUndefined incontactTokenUrl 0 =
     ([(0, Fetch (getToken_request demo_runtime (Admin_new demo_runtime) incontactTokenUrl)),
       (1, Log Info (JStr ''abc123'') ''_getToken'' (Msg ''token received''))],
      Settled 1 (Inr token_body))
   \<and> js_get token_body ''access_token'' = Inr (JStr ''tok'')
   \<and> js_get token_body ''resource_server_base_uri'' = Inr (JStr ''https://api/'')
   \<and> Admin_getToken demo_runtime (const_world (reply200 (JObj [(''access_token'', JStr ''tok'')])))
        (Admin_new demo_runtime) (JStr ''abc123'') JUndefined incontactTokenUrl 0 =
     ([(0, Fetch (getToken_request demo_runtime (Admin_new demo_runtime) incontactTokenUrl)),
       (1, Log Err (JStr ''abc123'') ''_getToken'' (Thrown (Error ''Missing token and/or uri'')))],
      Settled 1 (Inl (Error ''Missing token and/or uri'')))
   \<and> Admin_getToken demo_runtime
        (const_world (Response \<lparr>status = 401, statusText = ''Unauthorized'', json_body = None\<rparr>))
        (Admin_new demo_runtime) (JStr ''abc123'') JUndefined incontactTokenUrl 0 =
     ([(0, Fetch (getToken_request demo_runtime (Admin_new demo_runtime) incontactTokenUrl)),
       (1, Log Err (JStr ''abc123'') ''_getToken'' (Thrown (Error ''Response status: 401'')))],
      Settled 1 (Inl (Error ''Response status: 401'')))"
  using
    getToken_contract[of "const_world (reply200 token_body)" 0 demo_runtime
      "Admin_new demo_runtime" incontactTokenUrl 1
      "\<lparr>status = 200, statusText = ''OK'', json_body = Some token_body\<rparr>"
      token_body "JStr ''tok''" "JStr ''https://api/''" "JStr ''abc123''" JUndefined]
    getToken_contract[of "const_world (reply200 (JObj [(''access_token'', JStr ''tok'')]))" 0
      demo_runtime "Admin_new demo_runtime" incontactTokenUrl 1
      "\<lparr>status = 200, statusText = ''OK'', json_body = Some (JObj [(''access_token'', JStr ''tok'')])\<rparr>"
      "JObj [(''access_token'', JStr ''tok'')]" JNull JNull "JStr ''abc123''" JUndefined]
    getToken_contract[of
      "const_world (Response \<lparr>status = 401, statusText = ''Unauthorized'', json_body = None\<rparr>)"
      0 demo_runtime "Admin_new demo_runtime" incontactTokenUrl 1
      "\<lparr>status = 401, statusText = ''Unauthorized'', json_body = None\<rparr>"
      JNull JNull JNull "JStr ''abc123''" JUndefined]
  by (simp add: const_world_def reply200_def token_body_def ok_def field_def supplied_def
      show_nat.simps)

section \<open>The recognizer and the sentiment service (Sentiment)\<close>

lemma stt_check_transcript:
  assumes "transcript_at j = Some v"
  shows "stt_check L j = Inr v \<and>
         js_path j [''results'', ''0'', ''alternatives'', ''0'', ''transcript''] = Inr v"
proof -
  from assms obtain r0 rs where r: "field ''results'' j = Some (JArr (r0 # rs))"
    by (auto simp: transcript_at_def split: option.splits json.splits list.splits)
  with assms obtain a0 as where a: "field ''alternatives'' r0 = Some (JArr (a0 # as))"
    by (auto simp: transcript_at_def split: option.splits json.splits list.splits)
  with assms r have t: "field ''transcript'' a0 = Some v"
    by (auto simp: transcript_at_def)
  from r a t show ?thesis
    by (simp add: stt_check_def js_and_def js_gt0_def js_get_field)
qed

lemma stt_check_broken:
  assumes "broken_chain j"
  shows "(\<exists>e. stt_check L j = Inl e) \<or> (\<exists>v. stt_check L j = Inr v \<and> \<not> truthy v)"
proof (cases "no_list (field ''results'' j)")
  case True
  then show ?thesis
    using js_get_no_field[of "''results''" j]
    by (auto simp: no_list_def stt_check_def js_and_def js_gt0_def js_get_field)
next
  case False
  with assms obtain r0 rs where r: "field ''results'' j = Some (JArr (r0 # rs))"
    by (auto simp: broken_chain_def split: option.splits json.splits list.splits)
  show ?thesis
  proof (cases "no_list (field ''alternatives'' r0)")
    case True
    then show ?thesis
      using js_get_no_field[of "''alternatives''" r0] r
      by (auto simp: no_list_def stt_check_def js_and_def js_gt0_def js_get_field)
  next
    case F: False
    with assms r False obtain a0 as where a: "field ''alternatives'' r0 = Some (JArr (a0 # as))"
      by (auto simp: broken_chain_def split: option.splits json.splits list.splits)
    with assms r False F have "no_text (field ''transcript'' a0)"
      by (auto simp: broken_chain_def)
    then show ?thesis
      using js_get_no_field[of "''transcript''" a0] r a
      by (auto simp: no_text_def stt_check_def js_and_def js_gt0_def js_get_field)
  qed
qed


lemma js_and_truthy:
  "js_and a b = Inr c \<Longrightarrow> truthy c \<Longrightarrow> b = Inr c"
  by (auto simp: js_and_def split: sum.splits if_splits)

lemma stt_check_truthy:
  "stt_check L j = Inr c \<Longrightarrow> truthy c \<Longrightarrow>
   js_path j [''results'', ''0'', ''alternatives'', ''0'', ''transcript''] = Inr c"
  unfolding stt_check_def by (rule js_and_truthy)

lemma stt_outcome:
  assumes "net W t (stt_request L msg) = After d (Response r)" "ok r" "json_body r = Some j"
  shows "(\<exists>v n. Sentiment_stt L W contactId msg t =
            ([(t, Fetch (stt_request L msg)),
              (t + d, Log Info contactId ''_stt'' (Val ''transcript length:'' n))],
             Settled (t + d) (Inr v))
          \<and> truthy v
          \<and> js_path j [''results'', ''0'', ''alternatives'', ''0'', ''transcript''] = Inr v)
       \<or> (\<exists>e. Sentiment_stt L W contactId msg t =
            ([(t, Fetch (stt_request L msg)),
              (t + d, Log Err contactId ''_stt'' (Thrown e))],
             Settled (t + d) (Inl e)))"
proof (cases "stt_check L j")
  case (Inl e)
  with assms show ?thesis
    unfolding Sentiment_stt_def stt_check_def[symmetric]
    by (simp add: fetch_json_body promise_simps)
next
  case (Inr c)
  show ?thesis
  proof (cases "truthy c")
    case True
    from stt_check_truthy[OF Inr True] js_get_truthy[OF True, of "''length''"]
    obtain n where "js_path j [''results'', ''0'', ''alternatives'', ''0'', ''transcript''] = Inr c"
      "js_get c ''length'' = Inr n" by blast
    with assms Inr True show ?thesis
      unfolding Sentiment_stt_def stt_check_def[symmetric]
      by (simp add: fetch_json_body promise_simps)
  next
    case False
    with assms Inr show ?thesis
      unfolding Sentiment_stt_def stt_check_def[symmetric]
      by (simp add: fetch_json_body promise_simps)
  qed
qed

text \<open>
  C5. Let the recognizer answer the request of \<open>_stt\<close> after \<open>d\<close> ticks with a success
  status and the body \<open>j\<close>. If \<open>results[0].alternatives[0].transcript\<close> is there and is
  a non-empty string \<open>s\<close>, the promise is fulfilled with \<open>s\<close>. If a link of the chain is
  broken (the result list or the first result's alternative list is missing, null or
  empty, or the transcript is missing, null or empty), the promise is rejected, the
  error is logged under the tag \<open>_stt\<close> with the contactId, and nothing partial or empty
  is returned: this rejection is what the specification calls a TranscriptionError.
  Whatever the body is, there are only these two outcomes: the promise is fulfilled
  with the truthy value found at \<open>results[0].alternatives[0].transcript\<close>, or it is
  rejected.
\<close>

theorem stt_contract:
  assumes "net W t (stt_request L msg) = After d (Response r)" "ok r" "json_body r = Some j"
  shows "(transcript_at j = Some (JStr s) \<and> s \<noteq> [] \<longrightarrow>
          Sentiment_stt L W contactId msg t =
            ([(t, Fetch (stt_request L msg)),
              (t + d, Log Info contactId ''_stt''
                 (Val ''transcript length:'' (JNum (Finite (of_nat (length s))))))],
             Settled (t + d) (Inr (JStr s))))
       \<and> (broken_chain j \<longrightarrow>
          (\<exists>e. Sentiment_stt L W contactId msg t =
            ([(t, Fetch (stt_request L msg)),
              (t + d, Log Err contactId ''_stt'' (Thrown e))],
             Settled (t + d) (Inl e))))
       \<and> ((\<exists>v n. Sentiment_stt L W contactId msg t =
              ([(t, Fetch (stt_request L msg)),
                (t + d, Log Info contactId ''_stt'' (Val ''transcript length:'' n))],
               Settled (t + d) (Inr v))
            \<and> truthy v
            \<and> js_path j [''results'', ''0'', ''alternatives'', ''0'', ''transcript''] = Inr v)
          \<or> (\<exists>e. Sentiment_stt L W contactId msg t =
              ([(t, Fetch (stt_request L msg)),
                (t + d, Log Err contactId ''_stt'' (Thrown e))],
               Settled (t + d) (Inl e))))"
proof (intro conjI impI)
  assume "transcript_at j = Some (JStr s) \<and> s \<noteq> []"
  with stt_check_transcript[of j "JStr s" L] assms
  show "Sentiment_stt L W contactId msg t =
            ([(t, Fetch (stt_request L msg)),
              (t + d, Log Info contactId ''_stt''
                 (Val ''transcript length:'' (JNum (Finite (of_nat (length s))))))],
             Settled (t + d) (Inr (JStr s)))"
    unfolding Sentiment_stt_def stt_check_def[symmetric]
    by (simp add: fetch_json_body promise_simps)
next
  assume "broken_chain j"
  from stt_check_broken[OF this, of L]
  show "\<exists>e. Sentiment_stt L W contactId msg t =
            ([(t, Fetch (stt_request L msg)),
              (t + d, Log Err contactId ''_stt'' (Thrown e))],
             Settled (t + d) (Inl e))"
    using assms
    unfolding Sentiment_stt_def stt_check_def[symmetric]
    by (auto simp: fetch_json_body promise_simps)
next
  show "(\<exists>v n. Sentiment_stt L W contactId msg t =
              ([(t, Fetch (stt_request L msg)),
                (t + d, Log Info contactId ''_stt'' (Val ''transcript length:'' n))],
               Settled (t + d) (Inr v))
            \<and> truthy v
            \<and> js_path j [''results'', ''0'', ''alternatives'', ''0'', ''transcript''] = Inr v)
          \<or> (\<exists>e. Sentiment_stt L W contactId msg t =
              ([(t, Fetch (stt_request L msg)),
                (t + d, Log Err contactId ''_stt'' (Thrown e))],
               Settled (t + d) (Inl e)))"
    by (rule stt_outcome[OF assms])
qed

theorem stt_contract_witness:
  "Sentiment_stt demo_runtime (const_world (reply200 transcript_body)) (JStr ''abc123'')
     (JStr ''UklGRg=='') 0 =
     ([(0, Fetch (stt_request demo_runtime (JStr ''UklGRg==''))),
       (1, Log Info (JStr ''abc123'') ''_stt'' (Val ''transcript length:'' (JNum (Finite 5))))],
      Settled 1 (Inr (JStr ''hello'')))
   \<and> (\<exists>e. Sentiment_stt demo_runtime (const_world (reply200 (JObj [(''results'', JArr [])])))
          (JStr ''abc123'') (JStr ''UklGRg=='') 0 =
        ([(0, Fetch (stt_request demo_runtime (JStr ''UklGRg==''))),
          (1, Log Err (JStr ''abc123'') ''_stt'' (Thrown e))],
         Settled 1 (Inl e)))"
  using
    stt_contract[of "const_world (reply200 transcript_body)" 0 demo_runtime "JStr ''UklGRg==''" 1
      "\<lparr>status = 200, statusText = ''OK'', json_body = Some transcript_body\<rparr>"
      transcript_body "''hello''" "JStr ''abc123''"]
    stt_contract[of "const_world (reply200 (JObj [(''results'', JArr [])]))" 0 demo_runtime
      "JStr ''UklGRg==''" 1
      "\<lparr>status = 200, statusText = ''OK'', json_body = Some (JObj [(''results'', JArr [])])\<rparr>"
      "JObj [(''results'', JArr [])]" "''hello''" "JStr ''abc123''"]
  by (simp add: const_world_def reply200_def transcript_body_def ok_def field_def
      transcript_at_def broken_chain_def no_list_def)

text \<open>
  C6. Let the sentiment service answer the request of \<open>_analyze\<close> for the text \<open>txt\<close>
  after \<open>d\<close> ticks with a success status and the body \<open>j\<close>. If \<open>j\<close> contains
  \<open>documentSentiment\<close> (value \<open>s\<close>), the promise is fulfilled with the object that
  pairs \<open>txt\<close> itself, whatever it is, with \<open>s\<close>: reading its \<open>transcript\<close> gives
  \<open>txt\<close> back. If \<open>documentSentiment\<close> is absent, the promise is rejected and the
  error is logged under the tag \<open>_analyze\<close> with the contactId: this rejection is what
  the specification calls an AnalysisError.
\<close>

theorem analyze_contract:
  assumes "net W t (analyze_request L txt) = After d (Response r)" "ok r" "json_body r = Some j"
  shows "(field ''documentSentiment'' j = Some s \<and> truthy s \<longrightarrow>
          Sentiment_analyze L W contactId txt t =
            ([(t, Fetch (analyze_request L txt)),
              (t + d, Log Info contactId ''_analyze'' (Msg ''sentiment analysis complete''))],
             Settled (t + d) (Inr (JObj [(''transcript'', txt), (''sentiment'', s)])))
          \<and> js_get (JObj [(''transcript'', txt), (''sentiment'', s)]) ''transcript'' = Inr txt
          \<and> js_get (JObj [(''transcript'', txt), (''sentiment'', s)]) ''sentiment'' = Inr s)
       \<and> (\<not> supplied ''documentSentiment'' j \<longrightarrow>
          (\<exists>e. Sentiment_analyze L W contactId txt t =
            ([(t, Fetch (analyze_request L txt)),
              (t + d, Log Err contactId ''_analyze'' (Thrown e))],
             Settled (t + d) (Inl e))))"
proof (intro conjI impI)
  assume a: "field ''documentSentiment'' j = Some s \<and> truthy s"
  with js_get_field[of "''documentSentiment''" j s] assms
  show "Sentiment_analyze L W contactId txt t =
            ([(t, Fetch (analyze_request L txt)),
              (t + d, Log Info contactId ''_analyze'' (Msg ''sentiment analysis complete''))],
             Settled (t + d) (Inr (JObj [(''transcript'', txt), (''sentiment'', s)])))"
    by (simp add: Sentiment_analyze_def fetch_json_body promise_simps)
  show "js_get (JObj [(''transcript'', txt), (''sentiment'', s)]) ''transcript'' = Inr txt"
    by simp
  show "js_get (JObj [(''transcript'', txt), (''sentiment'', s)]) ''sentiment'' = Inr s"
    by simp
next
  assume n: "\<not> supplied ''documentSentiment'' j"
  show "\<exists>e. Sentiment_analyze L W contactId txt t =
            ([(t, Fetch (analyze_request L txt)),
              (t + d, Log Err contactId ''_analyze'' (Thrown e))],
             Settled (t + d) (Inl e))"
  proof (cases "j = JNull \<or> j = JUndefined")
    case True
    with assms show ?thesis
      by (auto simp: Sentiment_analyze_def fetch_json_body promise_simps)
  next
    case False
    with n js_get_not_supplied[of "''documentSentiment''" j]
    obtain v where "js_get j ''documentSentiment'' = Inr v" "\<not> truthy v" by auto
    with assms show ?thesis
      by (simp add: Sentiment_analyze_def fetch_json_body promise_simps)
  qed
qed

theorem analyze_contract_witness:
  "Sentiment_analyze demo_runtime (const_world (reply200 sentiment_body)) (JStr ''abc123'')
     (JStr ''hello'') 0 =
     ([(0, Fetch (analyze_request demo_runtime (JStr ''hello''))),
       (1, Log Info (JStr ''abc123'') ''_analyze'' (Msg ''sentiment analysis complete''))],
      Settled 1 (Inr (JObj [(''transcript'', JStr ''hello''),
         (''sentiment'', JObj [(''magnitude'', JNum (Finite (4 / 5))),
                               (''score'', JNum (Finite (- 3 / 10)))])])))
   \<and> (\<exists>e. Sentiment_analyze demo_runtime (const_world (reply200 (JObj []))) (JStr ''abc123'')
          (JStr ''hello'') 0 =
        ([(0, Fetch (analyze_request demo_runtime (JStr ''hello''))),
          (1, Log Err (JStr ''abc123'') ''_analyze'' (Thrown e))],
         Settled 1 (Inl e)))"
  using
    analyze_contract[of "const_world (reply200 sentiment_body)" 0 demo_runtime "JStr ''hello''" 1
      "\<lparr>status = 200, statusText = ''OK'', json_body = Some sentiment_body\<rparr>"
      sentiment_body
      "JObj [(''magnitude'', JNum (Finite (4 / 5))), (''score'', JNum (Finite (- 3 / 10)))]"
      "JStr ''abc123''"]
    analyze_contract[of "const_world (reply200 (JObj []))" 0 demo_runtime "JStr ''hello''" 1
      "\<lparr>status = 200, statusText = ''OK'', json_body = Some (JObj [])\<rparr>"
      "JObj []" JNull "JStr ''abc123''"]
  by (simp add: const_world_def reply200_def sentiment_body_def ok_def field_def supplied_def)

section \<open>The file request (Admin._getFile)\<close>

text \<open>
  C3. The file service answers with status 200 and the body \<open>{"files": {}}\<close>: a
  \<open>files\<close> object is there. \<open>_getFile\<close> does not return it: the log line of the
  success branch reads \<open>json.files.file.length\<close>, \<open>json.files.file\<close> is
  \<open>undefined\<close>, and the promise is rejected with the TypeError of that read.
\<close>

theorem getFile_files_without_file:
  "Admin_getFile demo_runtime (const_world (reply200 (JObj [(''files'', JObj [])])))
     (JStr ''abc123'') (JStr ''tok'') (JStr ''https://api/'') (JStr ''/rec/abc123.wav'') 0 =
   ([(0, Fetch (getFile_request demo_runtime (JStr ''tok'') (JStr ''https://api/'')
                  (JStr ''/rec/abc123.wav''))),
     (1, Log Err (JStr ''abc123'') ''_getFile'' (Thrown (TypeError ''length'')))],
    Settled 1 (Inl (TypeError ''length'')))"
  by (simp add: Admin_getFile_def fetch_json_body[where d = 1 and
        r = "\<lparr>status = 200, statusText = ''OK'', json_body = Some (JObj [(''files'', JObj [])])\<rparr>"]
      const_world_def reply200_def ok_def promise_simps js_and_def)

section \<open>The object store (GCStorage)\<close>

lemma save_cases:
  "GCStorage_save W contactId name c t =
     ((t, Save name c) #
        (case gcs W t name c of
           Never \<Rightarrow> []
         | After d Finish \<Rightarrow> [(t + d, Log Info contactId ''_save'' (Msg (name @ '' uploaded'')))]
         | After d (Broken err) \<Rightarrow> [(t + d, Log Err contactId ''_save'' (Thrown err))]),
      case gcs W t name c of
        Never \<Rightarrow> Pending
      | After d Finish \<Rightarrow> Settled (t + d) (Inr JUndefined)
      | After d (Broken err) \<Rightarrow> Settled (t + d) (Inl err))"
  by (simp add: GCStorage_save_def split: arrival.splits stream_result.splits)

text \<open>
  C2. The promise returned by \<open>upload\<close> settles exactly as the write of the first
  (audio) blob does, at the time that write is acknowledged or breaks, and stays pending
  while it is pending: the second and third writes have no part in it. When the first
  write is acknowledged, the second and the third are started at that moment, and all
  they contribute is their events; whether and when they are acknowledged is not
  awaited.
\<close>

theorem upload_awaits_first_write_only:
  "snd (GCStorage_upload L W contactId audio transcript sentiment t) =
     (case gcs W t (audioName L contactId) (Bytes audio) of
        Never \<Rightarrow> Pending
      | After d Finish \<Rightarrow> Settled (t + d) (Inr JUndefined)
      | After d (Broken err) \<Rightarrow> Settled (t + d) (Inl err))
   \<and> (\<forall>d. gcs W t (audioName L contactId) (Bytes audio) = After d Finish \<longrightarrow>
        fst (GCStorage_upload L W contactId audio transcript sentiment t) =
          [(t, Save (audioName L contactId) (Bytes audio)),
           (t + d, Log Info contactId ''_save'' (Msg (audioName L contactId @ '' uploaded'')))]
          @ fst (GCStorage_save W contactId (transName L contactId) (Value transcript) (t + d))
          @ fst (GCStorage_save W contactId (sntName L contactId) (Value (JStr sentiment)) (t + d)))"
  by (auto simp: GCStorage_upload_def save_cases[of W contactId "audioName L contactId"] promise_simps
      split: arrival.splits stream_result.splits)

theorem upload_awaits_first_write_only_witness:
  "GCStorage_upload demo_runtime lossy_world (JStr ''abc123'') ''RIFF'' (JStr ''hello'') ''{}'' 4 =
     ([(4, Save ''abc123/abc123.wav'' (Bytes ''RIFF'')),
       (5, Log Info (JStr ''abc123'') ''_save'' (Msg ''abc123/abc123.wav uploaded'')),
       (5, Save ''abc123/abc123.txt'' (Value (JStr ''hello''))),
       (55, Log Err (JStr ''abc123'') ''_save'' (Thrown (StreamError ''reset''))),
       (5, Save ''abc123/abc123.json'' (Value (JStr ''{}'')))],
      Settled 5 (Inr JUndefined))"
  using upload_awaits_first_write_only[of demo_runtime lossy_world "JStr ''abc123''" "''RIFF''"
      "JStr ''hello''" "''{}''" 4]
  by (simp add: prod_eq_iff lossy_world_def lossy_store_def audioName_def transName_def
      sntName_def save_cases)

text \<open>
  C8. The blob writes that \<open>upload\<close> starts for a contactId: when the first write is
  acknowledged, exactly three, named \<open>{contactId}/{contactId}.wav\<close>,
  \<open>{contactId}/{contactId}.txt\<close> and \<open>{contactId}/{contactId}.json\<close> (the contactId as
  string concatenation prints it), carrying the audio bytes, the transcript and the
  sentiment JSON; otherwise the chain stops after the first, the \<open>.wav\<close> blob.
\<close>

theorem upload_blob_names:
  "saves (fst (GCStorage_upload L W contactId audio transcript sentiment t)) =
     (case gcs W t (to_string L contactId @ ''/'' @ to_string L contactId @ ''.wav'') (Bytes audio) of
        After d Finish \<Rightarrow>
          [(t, to_string L contactId @ ''/'' @ to_string L contactId @ ''.wav'', Bytes audio),
           (t + d, to_string L contactId @ ''/'' @ to_string L contactId @ ''.txt'', Value transcript),
           (t + d, to_string L contactId @ ''/'' @ to_string L contactId @ ''.json'',
              Value (JStr sentiment))]
      | _ \<Rightarrow>
          [(t, to_string L contactId @ ''/'' @ to_string L contactId @ ''.wav'', Bytes audio)])"
  by (auto simp: GCStorage_upload_def save_cases[of W contactId] promise_simps saves_simps
        audioName_def transName_def sntName_def
      split: arrival.splits stream_result.splits)

theorem upload_blob_names_witness:
  "saves (fst (GCStorage_upload demo_runtime happy_world (JStr ''abc123'') ''RIFF''
       (JStr ''hello'') ''{}'' 0)) =
     [(0, ''abc123/abc123.wav'', Bytes ''RIFF''),
      (1, ''abc123/abc123.txt'', Value (JStr ''hello'')),
      (1, ''abc123/abc123.json'', Value (JStr ''{}''))]"
  using upload_blob_names[of demo_runtime happy_world "JStr ''abc123''" "''RIFF''"
      "JStr ''hello''" "''{}''" 0]
  by (simp add: happy_world_def)

section \<open>The handler and its pipeline\<close>























subsection \<open>A failed stage ends the job\<close>






lemma pipeline_process_pending:
  assumes "Admin_get L W (Admin_new L) contactId fileName t = (ev, Settled t1 (Inr files))"
    and "js_get files ''file'' = Inr audio"
    and "Sentiment_process L W contactId audio t1 = (ev2, Pending)"
  shows "pipeline L W contactId fileName t = (ev @ ev2, Pending)"
  using assms by (simp add: pipeline_def on_file_def promise_simps)



lemma pipeline_upload_fulfilled:
  assumes "Admin_get L W (Admin_new L) contactId fileName t = (ev, Settled t1 (Inr files))"
    and "js_get files ''file'' = Inr audio"
    and "Sentiment_process L W contactId audio t1 = (ev2, Settled t2 (Inr res))"
    and "Buffer_from L audio = Inr buffer"
    and "js_get res ''transcript'' = Inr transcript"
    and "js_get res ''sentiment'' = Inr sentiment"
    and "GCStorage_upload L W contactId buffer transcript (JSON_stringify L sentiment) t2 =
           (ev3, Settled t3 (Inr u))"
  shows "pipeline L W contactId fileName t =
           (ev @ ev2 @ ev3 @ fst (Admin_remove L W (Admin_new L) contactId fileName t3),
            Settled t3 (Inr JUndefined))"
  using assms by (simp add: pipeline_def on_file_def on_sentiment_def promise_simps)











lemmas model_defs =
  post_handler_def Admin_get_def Admin_remove_def Admin_getToken_def Admin_getFile_def
  Admin_removeFile_def Sentiment_process_def Sentiment_stt_def Sentiment_analyze_def
  GCStorage_upload_def GCStorage_save_def fetch_def json_if_ok_def response_json_def
  p_then_def p_catch_def logged_def resolve_def reject_def forget_def returning_def
  js_and_def js_gt0_def js_string_def ok_def

lemmas demo_defs =
  demo_runtime_def lossy_world_def lossy_store_def happy_net_def scenario_net_def
  happy_world_def job_def unauthorized_world_def silent_world_def broken_store_world_def
  const_world_def
  reply200_def token_body_def files_body_def transcript_body_def sentiment_body_def
  getToken_request_def getFile_request_def removeFile_request_def stt_request_def
  analyze_request_def files_url_def Admin_new_def audioName_def transName_def sntName_def
  incontactTokenUrl_def gcpSttUrl_def gcpSntUrl_def gcpKey_def incontactVersion_def
  incontactName_def incontactVendor_def incontactKey_def incontactUser_def incontactPwd_def
  encodeURIComponent_def encode_unit_def uri_unreserved_def percent_def









subsection \<open>The scenarios, stage by stage\<close>






lemma silent_process:
  "Sentiment_process demo_runtime silent_world (JStr ''abc123'') (JStr ''UklGRg=='') 2 =
   ([(2, Fetch (stt_request demo_runtime (JStr ''UklGRg==''))),
     (3, Log Err (JStr ''abc123'') ''_stt'' (Thrown (Error ''Invalid/missing result value''))),
     (3, Log Err (JStr ''abc123'') ''process'' (Thrown (Error ''Invalid/missing result value'')))],
    Settled 3 (Inl (Error ''Invalid/missing result value'')))"
  by (simp add: model_defs demo_defs)







section \<open>Deletion and the blob writes\<close>

text \<open>
  C1. The job \<open>{contactId: "abc123", fileName: "/rec/abc123.wav"}\<close> in a world where
  every service answers a well-formed success body after one tick and the object store
  acknowledges the audio blob after one tick, breaks the transcript blob's stream after
  fifty and never acknowledges the sentiment blob. The DELETE request for the recording
  is issued at time 6 and acknowledged at time 7; the write of the transcript blob fails
  at time 55, and the write of the sentiment blob is never acknowledged. So the delete
  call is issued before the upload of all three blobs has finished, and here it never
  finishes.
\<close>

theorem delete_before_writes_complete:
  "post_handler demo_runtime lossy_world job 0 =
     [(0, Respond 200),
      (0, Log Info (JStr ''abc123'') ''webserver'' (Val ''fileName:'' (JStr ''/rec/abc123.wav''))),
      (0, Fetch (getToken_request demo_runtime (Admin_new demo_runtime) incontactTokenUrl)),
      (1, Log Info (JStr ''abc123'') ''_getToken'' (Msg ''token received'')),
      (1, Fetch (getFile_request demo_runtime (JStr ''tok'') (JStr ''https://api/'')
                   (JStr ''/rec/abc123.wav''))),
      (2, Log Info (JStr ''abc123'') ''_getFile'' (Val ''length:'' (JNum (Finite 8)))),
      (2, Fetch (stt_request demo_runtime (JStr ''UklGRg==''))),
      (3, Log Info (JStr ''abc123'') ''_stt'' (Val ''transcript length:'' (JNum (Finite 5)))),
      (3, Fetch (analyze_request demo_runtime (JStr ''hello''))),
      (4, Log Info (JStr ''abc123'') ''_analyze'' (Msg ''sentiment analysis complete'')),
      (4, Save ''abc123/abc123.wav'' (Bytes ''UklGRg=='')),
      (5, Log Info (JStr ''abc123'') ''_save'' (Msg ''abc123/abc123.wav uploaded'')),
      (5, Save ''abc123/abc123.txt'' (Value (JStr ''hello''))),
      (55, Log Err (JStr ''abc123'') ''_save'' (Thrown (StreamError ''reset''))),
      (5, Save ''abc123/abc123.json'' (Value (JStr ''{}''))),
      (5, Fetch (getToken_request demo_runtime (Admin_new demo_runtime) incontactTokenUrl)),
      (6, Log Info (JStr ''abc123'') ''_getToken'' (Msg ''token received'')),
      (6, Fetch (removeFile_request demo_runtime (JStr ''tok'') (JStr ''https://api/'')
                   (JStr ''/rec/abc123.wav''))),
      (7, Log Info (JStr ''abc123'') ''_removeFile'' (Msg ''file deleted''))]
   \<and> verb (removeFile_request demo_runtime (JStr ''tok'') (JStr ''https://api/'')
              (JStr ''/rec/abc123.wav'')) = ''DELETE''
   \<and> url (removeFile_request demo_runtime (JStr ''tok'') (JStr ''https://api/'')
              (JStr ''/rec/abc123.wav'')) =
       ''https://api/services/v11.0/files?fileName=%2Frec%2Fabc123.wav''"
  by (simp add: model_defs demo_defs)

end
